theory Spec2Isabelle
  imports Complex_Main
begin

section \<open>JavaScript values\<close>

text \<open>
  The handlers of \<^verbatim>\<open>server.js\<close> work on parsed JSON: the \<^verbatim>\<open>data\<close> of an axios
  response, the values of \<^verbatim>\<open>req.query\<close>, and the object literals handed to
  \<^verbatim>\<open>res.json\<close>. A number is its mathematical value, or \<^verbatim>\<open>NaN\<close>; the precision and
  the range of a double are outside the model. An object is the list of its own
  properties in insertion order, with distinct keys.
\<close>

datatype jsnum = NaN | Fin rat

datatype jsval =
    JUndefined
  | JNull
  | JBool bool
  | JNum jsnum
  | JStr string
  | JArr "jsval list"
  | JObj "(string \<times> jsval) list"

text \<open>What a \<^verbatim>\<open>try\<close> block of the handlers can catch: the rejection of
  \<^verbatim>\<open>axios.get\<close>, with \<^verbatim>\<open>error.response?.status\<close> and \<^verbatim>\<open>error.message\<close>, or
  a \<^verbatim>\<open>TypeError\<close> of the engine, which has a message and no \<^verbatim>\<open>response\<close>.\<close>

datatype thrown =
    AxiosError "nat option" string
  | TypeError string

fun responseStatus :: "thrown \<Rightarrow> nat option" where
  "responseStatus (AxiosError st msg) = st"
| "responseStatus (TypeError msg) = None"

fun message :: "thrown \<Rightarrow> string" where
  "message (AxiosError st msg) = msg"
| "message (TypeError msg) = msg"

definition bindE :: "'e + 'a \<Rightarrow> ('a \<Rightarrow> 'e + 'b) \<Rightarrow> 'e + 'b" where
  "bindE m f = (case m of Inl e \<Rightarrow> Inl e | Inr x \<Rightarrow> f x)"

fun mapE :: "('a \<Rightarrow> 'e + 'b) \<Rightarrow> 'a list \<Rightarrow> 'e + 'b list" where
  "mapE f [] = Inr []"
| "mapE f (x # xs) = bindE (f x) (\<lambda>y. bindE (mapE f xs) (\<lambda>ys. Inr (y # ys)))"

text \<open>Truthiness, as \<^verbatim>\<open>!x\<close>, \<^verbatim>\<open>x || y\<close> and \<^verbatim>\<open>x ? a : b\<close> test it.\<close>

fun truthy :: "jsval \<Rightarrow> bool" where
  "truthy JUndefined = False"
| "truthy JNull = False"
| "truthy (JBool b) = b"
| "truthy (JNum NaN) = False"
| "truthy (JNum (Fin r)) = (r \<noteq> 0)"
| "truthy (JStr s) = (s \<noteq> [])"
| "truthy (JArr xs) = True"
| "truthy (JObj kvs) = True"

definition orElse :: "jsval \<Rightarrow> jsval \<Rightarrow> jsval" where
  "orElse x y = (if truthy x then x else y)"

fun nullish :: "jsval \<Rightarrow> bool" where
  "nullish JUndefined = True"
| "nullish JNull = True"
| "nullish v = False"

definition cannotRead :: "string \<Rightarrow> string \<Rightarrow> thrown" where
  "cannotRead what k =
     TypeError (''Cannot read properties of '' @ what @ '' (reading '' @ [CHR 0x27] @ k @ [CHR 0x27] @ '')'')"

definition field :: "(string \<times> jsval) list \<Rightarrow> string \<Rightarrow> jsval" where
  "field kvs k = (case map_of kvs k of None \<Rightarrow> JUndefined | Some v \<Rightarrow> v)"

text \<open>\<^verbatim>\<open>v.k\<close> for the data property names the handlers read. None of them names a
  property of a built-in prototype, so on a number, a boolean, a string or an array
  the read gives \<^verbatim>\<open>undefined\<close>; on \<^verbatim>\<open>undefined\<close> and \<^verbatim>\<open>null\<close> it throws.\<close>

fun getProp :: "jsval \<Rightarrow> string \<Rightarrow> thrown + jsval" where
  "getProp JUndefined k = Inl (cannotRead ''undefined'' k)"
| "getProp JNull k = Inl (cannotRead ''null'' k)"
| "getProp (JObj kvs) k = Inr (field kvs k)"
| "getProp v k = Inr JUndefined"

text \<open>\<^verbatim>\<open>v?.k\<close>: \<^verbatim>\<open>undefined\<close> when \<^verbatim>\<open>v\<close> is \<^verbatim>\<open>undefined\<close> or \<^verbatim>\<open>null\<close>.\<close>

definition getPropOpt :: "jsval \<Rightarrow> string \<Rightarrow> thrown + jsval" where
  "getPropOpt v k = (if nullish v then Inr JUndefined else getProp v k)"

fun digitsOf :: "nat \<Rightarrow> string" where
  "digitsOf n =
     (if n < 10 then [''0123456789'' ! n]
      else digitsOf (n div 10) @ [''0123456789'' ! (n mod 10)])"

declare digitsOf.simps [simp del]

text \<open>\<^verbatim>\<open>v[n]\<close> for a number \<^verbatim>\<open>n\<close>: an element of an array, a character of a string,
  the property named by the decimal digits of \<^verbatim>\<open>n\<close> of an object.\<close>

fun getElem :: "jsval \<Rightarrow> nat \<Rightarrow> thrown + jsval" where
  "getElem JUndefined n = Inl (cannotRead ''undefined'' (digitsOf n))"
| "getElem JNull n = Inl (cannotRead ''null'' (digitsOf n))"
| "getElem (JArr xs) n = Inr (if n < length xs then xs ! n else JUndefined)"
| "getElem (JStr s) n = Inr (if n < length s then JStr [s ! n] else JUndefined)"
| "getElem (JObj kvs) n = Inr (field kvs (digitsOf n))"
| "getElem v n = Inr JUndefined"

text \<open>\<^verbatim>\<open>ToNumber\<close>. What a string, an array or an object converts to is fixed by the
  language's numeric-string grammar and is a parameter \<open>coerce\<close> here.\<close>

fun toNumber :: "(jsval \<Rightarrow> jsnum) \<Rightarrow> jsval \<Rightarrow> jsnum" where
  "toNumber coerce JUndefined = NaN"
| "toNumber coerce JNull = Fin 0"
| "toNumber coerce (JBool b) = Fin (if b then 1 else 0)"
| "toNumber coerce (JNum n) = n"
| "toNumber coerce v = coerce v"

text \<open>\<^verbatim>\<open>Math.round\<close>: the integer closest to the argument, the one closer to
  \<open>+\<infinity>\<close> of two equally close.\<close>

definition mathRound :: "(jsval \<Rightarrow> jsnum) \<Rightarrow> jsval \<Rightarrow> jsval" where
  "mathRound coerce v =
     (case toNumber coerce v of
        NaN \<Rightarrow> JNum NaN
      | Fin r \<Rightarrow> JNum (Fin (of_int \<lfloor>r + 1 / 2\<rfloor>)))"

text \<open>\<^verbatim>\<open>xs.map(f)\<close> where \<^verbatim>\<open>xs\<close> is the value of the expression \<open>expr\<close>: only an array
  has the method.\<close>

fun callMap :: "string \<Rightarrow> jsval \<Rightarrow> (jsval \<Rightarrow> thrown + jsval) \<Rightarrow> thrown + jsval" where
  "callMap expr JUndefined f = Inl (cannotRead ''undefined'' ''map'')"
| "callMap expr JNull f = Inl (cannotRead ''null'' ''map'')"
| "callMap expr (JArr xs) f = bindE (mapE f xs) (\<lambda>ys. Inr (JArr ys))"
| "callMap expr v f = Inl (TypeError (expr @ ''.map is not a function''))"


section \<open>The server: \<^verbatim>\<open>server.js\<close>\<close>

text \<open>An outbound call is named by its provider and by the value interpolated into
  the \<^verbatim>\<open>q\<close> parameter of its URL; the rest of each URL is constant (metric units for
  the weather provider; English, \<^verbatim>\<open>sortBy=publishedAt\<close> and \<^verbatim>\<open>pageSize=5\<close> for
  the news provider). \<^verbatim>\<open>axios.get\<close> resolves with a response, of which the handlers
  read \<^verbatim>\<open>data\<close> only, or rejects.\<close>

datatype outbound = WeatherCall jsval | NewsCall jsval

datatype fetch = Resolved jsval | Rejected thrown

type_synonym upstream = "outbound \<Rightarrow> fetch"

record query =
  city :: jsval
  country :: jsval

record response =
  status :: nat
  body :: jsval

text \<open>The object literal \<^verbatim>\<open>processedData\<close> of \<^verbatim>\<open>GET /api/weather\<close>, its property
  values evaluated in source order.\<close>

definition processedData :: "(jsval \<Rightarrow> jsnum) \<Rightarrow> jsval \<Rightarrow> thrown + jsval" where
  "processedData coerce weatherData =
     bindE (getProp weatherData ''main'') (\<lambda>main1.
     bindE (getProp main1 ''temp'') (\<lambda>temp.
     bindE (getProp weatherData ''weather'') (\<lambda>weather1.
     bindE (getElem weather1 0) (\<lambda>weather0.
     bindE (getProp weather0 ''description'') (\<lambda>description.
     bindE (getProp weatherData ''coord'') (\<lambda>coord1.
     bindE (getProp coord1 ''lat'') (\<lambda>lat.
     bindE (getProp weatherData ''coord'') (\<lambda>coord2.
     bindE (getProp coord2 ''lon'') (\<lambda>lon.
     bindE (getProp weatherData ''main'') (\<lambda>main2.
     bindE (getProp main2 ''feels_like'') (\<lambda>feels_like.
     bindE (getProp weatherData ''wind'') (\<lambda>wind.
     bindE (getPropOpt wind ''speed'') (\<lambda>speed.
     bindE (getProp weatherData ''sys'') (\<lambda>sys.
     bindE (getProp sys ''country'') (\<lambda>country1.
     bindE (getProp weatherData ''rain'') (\<lambda>rain.
     bindE (getPropOpt rain ''3h'') (\<lambda>rain3h.
     bindE (getProp weatherData ''name'') (\<lambda>name.
     bindE (getProp weatherData ''main'') (\<lambda>main3.
     bindE (getProp main3 ''humidity'') (\<lambda>humidity.
     bindE (getProp weatherData ''main'') (\<lambda>main4.
     bindE (getProp main4 ''pressure'') (\<lambda>pressure.
     bindE (getProp weatherData ''weather'') (\<lambda>weather2.
     bindE (getElem weather2 0) (\<lambda>weather3.
     bindE (getProp weather3 ''icon'') (\<lambda>icon.
     Inr (JObj
       [(''temperature'', mathRound coerce temp),
        (''description'', description),
        (''coordinates'', JObj [(''lat'', lat), (''lon'', lon)]),
        (''feelsLike'', mathRound coerce feels_like),
        (''windSpeed'', orElse speed (JNum (Fin 0))),
        (''countryCode'', country1),
        (''rainVolume'', orElse rain3h (JNum (Fin 0))),
        (''city'', name),
        (''humidity'', humidity),
        (''pressure'', pressure),
        (''icon'', icon)]))))))))))))))))))))))))))"

text \<open>The \<^verbatim>\<open>catch\<close> block of \<^verbatim>\<open>GET /api/weather\<close>.\<close>

definition weatherCatch :: "thrown \<Rightarrow> response" where
  "weatherCatch error =
     (if responseStatus error = Some 404 then
        \<lparr>status = 404, body = JObj
          [(''error'', JStr ''City not found''),
           (''message'', JStr ''Please check the city name and try again'')]\<rparr>
      else if responseStatus error = Some 401 then
        \<lparr>status = 401, body = JObj
          [(''error'', JStr ''Invalid API key''),
           (''message'', JStr ''Please check your OpenWeather API key'')]\<rparr>
      else
        \<lparr>status = 500, body = JObj
          [(''error'', JStr ''Failed to fetch weather data''),
           (''message'', JStr (message error))]\<rparr>)"

text \<open>A handler returns the outbound calls it made, in order, and its response.
  \<^verbatim>\<open>res.json\<close> without \<^verbatim>\<open>res.status\<close> answers 200.\<close>

definition apiWeather :: "(jsval \<Rightarrow> jsnum) \<Rightarrow> upstream \<Rightarrow> query \<Rightarrow> outbound list \<times> response" where
  "apiWeather coerce up req =
     (if \<not> truthy (city req) then
        ([], \<lparr>status = 400, body = JObj
          [(''error'', JStr ''City parameter is required''),
           (''example'', JStr ''/api/weather?city=London'')]\<rparr>)
      else
        (case up (WeatherCall (city req)) of
           Rejected error \<Rightarrow> ([WeatherCall (city req)], weatherCatch error)
         | Resolved weatherData \<Rightarrow>
             (case processedData coerce weatherData of
                Inl error \<Rightarrow> ([WeatherCall (city req)], weatherCatch error)
              | Inr data \<Rightarrow> ([WeatherCall (city req)], \<lparr>status = 200, body = data\<rparr>))))"

text \<open>The callback of \<^verbatim>\<open>articles.map\<close> in \<^verbatim>\<open>GET /api/news\<close>.\<close>

definition newsArticle :: "jsval \<Rightarrow> thrown + jsval" where
  "newsArticle article =
     bindE (getProp article ''title'') (\<lambda>title.
     bindE (getProp article ''description'') (\<lambda>description.
     bindE (getProp article ''url'') (\<lambda>url.
     bindE (getProp article ''publishedAt'') (\<lambda>publishedAt.
     bindE (getProp article ''source'') (\<lambda>source.
     bindE (getProp source ''name'') (\<lambda>name.
     bindE (getProp article ''urlToImage'') (\<lambda>urlToImage.
     Inr (JObj
       [(''title'', title),
        (''description'', description),
        (''url'', url),
        (''publishedAt'', publishedAt),
        (''source'', name),
        (''imageUrl'', urlToImage)]))))))))"

text \<open>The object literal \<^verbatim>\<open>processedNews\<close> of \<^verbatim>\<open>GET /api/news\<close>.\<close>

definition processedNews :: "jsval \<Rightarrow> thrown + jsval" where
  "processedNews newsData =
     bindE (getProp newsData ''totalResults'') (\<lambda>totalResults.
     bindE (getProp newsData ''articles'') (\<lambda>articles.
     bindE (callMap ''newsData.articles'' articles newsArticle) (\<lambda>mapped.
     Inr (JObj
       [(''totalResults'', totalResults),
        (''articles'', mapped)]))))"

definition newsCatch :: "thrown \<Rightarrow> response" where
  "newsCatch error =
     (if responseStatus error = Some 401 then
        \<lparr>status = 401, body = JObj
          [(''error'', JStr ''Invalid API key''),
           (''message'', JStr ''Please check your News API key'')]\<rparr>
      else if responseStatus error = Some 429 then
        \<lparr>status = 429, body = JObj
          [(''error'', JStr ''API rate limit exceeded''),
           (''message'', JStr ''Please try again later'')]\<rparr>
      else
        \<lparr>status = 500, body = JObj
          [(''error'', JStr ''Failed to fetch news data''),
           (''message'', JStr (message error))]\<rparr>)"

definition apiNews :: "upstream \<Rightarrow> query \<Rightarrow> outbound list \<times> response" where
  "apiNews up req =
     (if \<not> truthy (city req) \<and> \<not> truthy (country req) then
        ([], \<lparr>status = 400, body = JObj
          [(''error'', JStr ''City or country parameter is required''),
           (''example'', JStr ''/api/news?city=London or /api/news?country=GB'')]\<rparr>)
      else
        (let query = orElse (city req) (country req) in
         case up (NewsCall query) of
           Rejected error \<Rightarrow> ([NewsCall query], newsCatch error)
         | Resolved newsData \<Rightarrow>
             (case processedNews newsData of
                Inl error \<Rightarrow> ([NewsCall query], newsCatch error)
              | Inr news \<Rightarrow> ([NewsCall query], \<lparr>status = 200, body = news\<rparr>))))"

text \<open>\<^verbatim>\<open>GET /api/data\<close> repeats both mappings inline: the object literal
  \<^verbatim>\<open>processedWeather\<close>, the callback of \<^verbatim>\<open>articles.map\<close> and the object assigned
  to \<^verbatim>\<open>newsData\<close> inside the inner \<^verbatim>\<open>try\<close>.\<close>

definition processedWeather :: "(jsval \<Rightarrow> jsnum) \<Rightarrow> jsval \<Rightarrow> thrown + jsval" where
  "processedWeather coerce weatherData =
     bindE (getProp weatherData ''main'') (\<lambda>main1.
     bindE (getProp main1 ''temp'') (\<lambda>temp.
     bindE (getProp weatherData ''weather'') (\<lambda>weather1.
     bindE (getElem weather1 0) (\<lambda>weather0.
     bindE (getProp weather0 ''description'') (\<lambda>description.
     bindE (getProp weatherData ''coord'') (\<lambda>coord1.
     bindE (getProp coord1 ''lat'') (\<lambda>lat.
     bindE (getProp weatherData ''coord'') (\<lambda>coord2.
     bindE (getProp coord2 ''lon'') (\<lambda>lon.
     bindE (getProp weatherData ''main'') (\<lambda>main2.
     bindE (getProp main2 ''feels_like'') (\<lambda>feels_like.
     bindE (getProp weatherData ''wind'') (\<lambda>wind.
     bindE (getPropOpt wind ''speed'') (\<lambda>speed.
     bindE (getProp weatherData ''sys'') (\<lambda>sys.
     bindE (getProp sys ''country'') (\<lambda>country1.
     bindE (getProp weatherData ''rain'') (\<lambda>rain.
     bindE (getPropOpt rain ''3h'') (\<lambda>rain3h.
     bindE (getProp weatherData ''name'') (\<lambda>name.
     bindE (getProp weatherData ''main'') (\<lambda>main3.
     bindE (getProp main3 ''humidity'') (\<lambda>humidity.
     bindE (getProp weatherData ''main'') (\<lambda>main4.
     bindE (getProp main4 ''pressure'') (\<lambda>pressure.
     bindE (getProp weatherData ''weather'') (\<lambda>weather2.
     bindE (getElem weather2 0) (\<lambda>weather3.
     bindE (getProp weather3 ''icon'') (\<lambda>icon.
     Inr (JObj
       [(''temperature'', mathRound coerce temp),
        (''description'', description),
        (''coordinates'', JObj [(''lat'', lat), (''lon'', lon)]),
        (''feelsLike'', mathRound coerce feels_like),
        (''windSpeed'', orElse speed (JNum (Fin 0))),
        (''countryCode'', country1),
        (''rainVolume'', orElse rain3h (JNum (Fin 0))),
        (''city'', name),
        (''humidity'', humidity),
        (''pressure'', pressure),
        (''icon'', icon)]))))))))))))))))))))))))))"

definition dataArticle :: "jsval \<Rightarrow> thrown + jsval" where
  "dataArticle article =
     bindE (getProp article ''title'') (\<lambda>title.
     bindE (getProp article ''description'') (\<lambda>description.
     bindE (getProp article ''url'') (\<lambda>url.
     bindE (getProp article ''publishedAt'') (\<lambda>publishedAt.
     bindE (getProp article ''source'') (\<lambda>source.
     bindE (getProp source ''name'') (\<lambda>name.
     bindE (getProp article ''urlToImage'') (\<lambda>urlToImage.
     Inr (JObj
       [(''title'', title),
        (''description'', description),
        (''url'', url),
        (''publishedAt'', publishedAt),
        (''source'', name),
        (''imageUrl'', urlToImage)]))))))))"

definition dataNews :: "jsval \<Rightarrow> thrown + jsval" where
  "dataNews data =
     bindE (getProp data ''totalResults'') (\<lambda>totalResults.
     bindE (getProp data ''articles'') (\<lambda>articles.
     bindE (callMap ''newsResponse.data.articles'' articles dataArticle) (\<lambda>mapped.
     Inr (JObj
       [(''totalResults'', totalResults),
        (''articles'', mapped)]))))"

text \<open>The object assigned to \<^verbatim>\<open>newsData\<close> in the inner \<^verbatim>\<open>catch\<close>.\<close>

definition newsUnavailable :: jsval where
  "newsUnavailable = JObj
     [(''totalResults'', JNum (Fin 0)),
      (''articles'', JArr []),
      (''error'', JStr ''News data unavailable'')]"

text \<open>The outer \<^verbatim>\<open>catch\<close> block of \<^verbatim>\<open>GET /api/data\<close>.\<close>

definition dataCatch :: "thrown \<Rightarrow> response" where
  "dataCatch error =
     (if responseStatus error = Some 404 then
        \<lparr>status = 404, body = JObj
          [(''error'', JStr ''City not found''),
           (''message'', JStr ''Please check the city name and try again'')]\<rparr>
      else
        \<lparr>status = 500, body = JObj
          [(''error'', JStr ''Failed to fetch data''),
           (''message'', JStr (message error))]\<rparr>)"

text \<open>The inner \<^verbatim>\<open>try\<close>/\<^verbatim>\<open>catch\<close>: the rejection of the news call and an exception of
  the news mapping both end in the inner \<^verbatim>\<open>catch\<close>.\<close>

definition dataNewsOrUnavailable :: "fetch \<Rightarrow> jsval" where
  "dataNewsOrUnavailable newsResponse =
     (case newsResponse of
        Rejected newsError \<Rightarrow> newsUnavailable
      | Resolved data \<Rightarrow>
          (case dataNews data of
             Inl newsError \<Rightarrow> newsUnavailable
           | Inr newsData \<Rightarrow> newsData))"

definition apiData :: "(jsval \<Rightarrow> jsnum) \<Rightarrow> upstream \<Rightarrow> query \<Rightarrow> outbound list \<times> response" where
  "apiData coerce up req =
     (if \<not> truthy (city req) then
        ([], \<lparr>status = 400, body = JObj
          [(''error'', JStr ''City parameter is required''),
           (''example'', JStr ''/api/data?city=London'')]\<rparr>)
      else
        (case up (WeatherCall (city req)) of
           Rejected error \<Rightarrow> ([WeatherCall (city req)], dataCatch error)
         | Resolved weatherData \<Rightarrow>
             (case processedWeather coerce weatherData of
                Inl error \<Rightarrow> ([WeatherCall (city req)], dataCatch error)
              | Inr weather \<Rightarrow>
                  ([WeatherCall (city req), NewsCall (city req)],
                   \<lparr>status = 200, body = JObj
                      [(''weather'', weather),
                       (''news'', dataNewsOrUnavailable (up (NewsCall (city req))))]\<rparr>))))"

section \<open>The client: \<^verbatim>\<open>public/script.js\<close>\<close>

text \<open>What \<^verbatim>\<open>response.json()\<close> gives the client for a body that the server handed
  to \<^verbatim>\<open>res.json\<close>: \<^verbatim>\<open>JSON.stringify\<close> leaves out the properties whose value is
  \<^verbatim>\<open>undefined\<close> and writes \<^verbatim>\<open>null\<close> for \<^verbatim>\<open>NaN\<close> and for an \<^verbatim>\<open>undefined\<close> element
  of an array.\<close>

fun wire :: "jsval \<Rightarrow> jsval" where
  "wire JUndefined = JNull"
| "wire (JNum NaN) = JNull"
| "wire (JArr xs) = JArr (map wire xs)"
| "wire (JObj kvs) =
     JObj (map (\<lambda>kv. (fst kv, wire (snd kv))) (filter (\<lambda>kv. snd kv \<noteq> JUndefined) kvs))"
| "wire v = v"

text \<open>\<^verbatim>\<open>createNewsCard\<close>, up to the markup: the card is the values interpolated into
  its template, the image being either the empty string or an \<^verbatim>\<open>img\<close> element with
  its \<^verbatim>\<open>src\<close> and \<^verbatim>\<open>alt\<close>. The date is kept as the argument of \<^verbatim>\<open>new Date\<close>.\<close>

datatype html = EmptyString | Img jsval jsval

record newsCard =
  cardImage :: html
  cardSource :: jsval
  cardTitle :: jsval
  cardDescription :: jsval
  cardDate :: jsval
  cardLink :: jsval

definition createNewsCard :: "jsval \<Rightarrow> thrown + newsCard" where
  "createNewsCard article =
     bindE (getProp article ''imageUrl'') (\<lambda>imageUrl.
     bindE (if truthy imageUrl
            then bindE (getProp article ''title'') (\<lambda>alt. Inr (Img imageUrl alt))
            else Inr EmptyString) (\<lambda>image.
     bindE (getProp article ''publishedAt'') (\<lambda>publishedAt.
     bindE (getProp article ''source'') (\<lambda>source.
     bindE (getProp article ''title'') (\<lambda>title.
     bindE (getProp article ''description'') (\<lambda>description.
     bindE (getProp article ''url'') (\<lambda>url.
     Inr \<lparr>cardImage = image,
          cardSource = orElse source (JStr ''Unknown Source''),
          cardTitle = orElse title (JStr ''No title available''),
          cardDescription = orElse description (JStr ''No description available''),
          cardDate = publishedAt,
          cardLink = url\<rparr>)))))))"

section \<open>Sample requests and payloads\<close>

text \<open>The scenario of the specification: London, 15.3 degrees, feels like 14.1, wind
  3.5 m/s, no \<^verbatim>\<open>rain\<close> property.\<close>

definition londonMain :: jsval where
  "londonMain = JObj
     [(''temp'', JNum (Fin (153 / 10))), (''feels_like'', JNum (Fin (141 / 10))),
      (''pressure'', JNum (Fin 1013)), (''humidity'', JNum (Fin 65))]"

definition londonWeather :: jsval where
  "londonWeather = JObj
     [(''coord'', JObj [(''lon'', JNum (Fin (- 1257 / 10000))), (''lat'', JNum (Fin (515085 / 10000)))]),
      (''weather'', JArr [JObj
         [(''id'', JNum (Fin 800)), (''main'', JStr ''Clear''),
          (''description'', JStr ''clear sky''), (''icon'', JStr ''01d'')]]),
      (''main'', londonMain),
      (''wind'', JObj [(''speed'', JNum (Fin (35 / 10)))]),
      (''sys'', JObj [(''country'', JStr ''GB'')]),
      (''name'', JStr ''London'')]"

definition londonReport :: jsval where
  "londonReport = JObj
     [(''temperature'', JNum (Fin 15)),
      (''description'', JStr ''clear sky''),
      (''coordinates'', JObj [(''lat'', JNum (Fin (515085 / 10000))), (''lon'', JNum (Fin (- 1257 / 10000)))]),
      (''feelsLike'', JNum (Fin 14)),
      (''windSpeed'', JNum (Fin (35 / 10))),
      (''countryCode'', JStr ''GB''),
      (''rainVolume'', JNum (Fin 0)),
      (''city'', JStr ''London''),
      (''humidity'', JNum (Fin 65)),
      (''pressure'', JNum (Fin 1013)),
      (''icon'', JStr ''01d'')]"











definition fullArticle :: "string \<Rightarrow> jsval" where
  "fullArticle t = JObj
     [(''source'', JObj [(''id'', JNull), (''name'', JStr ''BBC News'')]),
      (''title'', JStr t),
      (''description'', JStr ''Article description''),
      (''url'', JStr ''https://example.com/article''),
      (''urlToImage'', JStr ''https://example.com/image.jpg''),
      (''publishedAt'', JStr ''2024-01-01T12:00:00Z'')]"

text \<open>An article without title and description, and with a \<^verbatim>\<open>null\<close> image.\<close>

definition bareArticle :: jsval where
  "bareArticle = JObj
     [(''source'', JObj [(''id'', JNull), (''name'', JStr ''BBC News'')]),
      (''url'', JStr ''https://example.com/article''),
      (''urlToImage'', JNull),
      (''publishedAt'', JStr ''2024-01-01T12:00:00Z'')]"

text \<open>What the server answers for it, and what the client reads from that answer.\<close>

definition bareMapped :: jsval where
  "bareMapped = JObj
     [(''title'', JUndefined),
      (''description'', JUndefined),
      (''url'', JStr ''https://example.com/article''),
      (''publishedAt'', JStr ''2024-01-01T12:00:00Z''),
      (''source'', JStr ''BBC News''),
      (''imageUrl'', JNull)]"

definition bareCard :: newsCard where
  "bareCard =
     \<lparr>cardImage = EmptyString,
      cardSource = JStr ''BBC News'',
      cardTitle = JStr ''No title available'',
      cardDescription = JStr ''No description available'',
      cardDate = JStr ''2024-01-01T12:00:00Z'',
      cardLink = JStr ''https://example.com/article''\<rparr>"

text \<open>A provider that answers with six articles although five were asked for.\<close>

definition sixArticles :: jsval where
  "sixArticles = JObj
     [(''status'', JStr ''ok''),
      (''totalResults'', JNum (Fin 1234)),
      (''articles'', JArr
         [fullArticle ''a'', fullArticle ''b'', fullArticle ''c'',
          fullArticle ''d'', fullArticle ''e'', fullArticle ''f''])]"

definition bareNews :: jsval where
  "bareNews = JObj
     [(''status'', JStr ''ok''),
      (''totalResults'', JNum (Fin 1)),
      (''articles'', JArr [bareArticle])]"

definition upstreamOf :: "fetch \<Rightarrow> fetch \<Rightarrow> upstream" where
  "upstreamOf weatherAnswer newsAnswer call =
     (case call of WeatherCall q \<Rightarrow> weatherAnswer | NewsCall q \<Rightarrow> newsAnswer)"

definition failedWith :: "nat \<Rightarrow> fetch" where
  "failedWith st = Rejected (AxiosError (Some st) ''Request failed'')"

definition networkDown :: fetch where
  "networkDown = Rejected (AxiosError None ''getaddrinfo ENOTFOUND'')"

definition cityQuery :: "string \<Rightarrow> query" where
  "cityQuery c = \<lparr>city = JStr c, country = JUndefined\<rparr>"

definition noCoercion :: "jsval \<Rightarrow> jsnum" where
  "noCoercion v = NaN"

section \<open>Basic facts\<close>

lemma bindE_Inr [simp]: "bindE (Inr x) f = f x"
  by (simp add: bindE_def)

lemma bindE_Inl [simp]: "bindE (Inl e) f = Inl e"
  by (simp add: bindE_def)

lemma bindE_eq_Inr: "bindE m f = Inr y \<longleftrightarrow> (\<exists>x. m = Inr x \<and> f x = Inr y)"
  by (cases m) simp_all

lemma digitsOf_0 [simp]: "digitsOf 0 = ''0''"
  by (simp add: digitsOf.simps)

lemma mapE_length: "mapE f xs = Inr ys \<Longrightarrow> length ys = length xs"
  by (induction xs arbitrary: ys) (auto simp: bindE_eq_Inr)

lemma mapE_nth: "mapE f xs = Inr ys \<Longrightarrow> i < length xs \<Longrightarrow> f (xs ! i) = Inr (ys ! i)"
proof (induction xs arbitrary: ys i)
  case Nil
  then show ?case by simp
next
  case (Cons x xs)
  then obtain y ys' where y: "f x = Inr y" and ys': "mapE f xs = Inr ys'" and eq: "ys = y # ys'"
    by (auto simp: bindE_eq_Inr)
  show ?case
  proof (cases i)
    case 0
    with y eq show ?thesis by simp
  next
    case (Suc j)
    with Cons.prems(2) have "j < length xs" by simp
    from Cons.IH [OF ys' this] Suc eq show ?thesis by simp
  qed
qed

lemma mapE_total: "\<forall>x\<in>set xs. \<exists>y. f x = Inr y \<Longrightarrow> \<exists>ys. mapE f xs = Inr ys"
  by (induction xs) (auto simp: bindE_eq_Inr)

lemma truthy_wire [simp]: "truthy (wire v) = truthy v"
  by (cases v rule: wire.cases) simp_all

text \<open>Reading a property of an object that went over the wire.\<close>

lemma field_wire:
  "distinct (map fst kvs) \<Longrightarrow>
   field (map (\<lambda>kv. (fst kv, wire (snd kv))) (filter (\<lambda>kv. snd kv \<noteq> JUndefined) kvs)) k =
     (if field kvs k = JUndefined then JUndefined else wire (field kvs k))"
proof (induction kvs)
  case Nil
  then show ?case by (simp add: field_def)
next
  case (Cons kv kvs)
  obtain k' v where kv: "kv = (k', v)" by (cases kv)
  from Cons.prems kv have notin: "k' \<notin> fst ` set kvs" and d: "distinct (map fst kvs)" by auto
  from notin have none: "map_of kvs k' = None" by (simp add: map_of_eq_None_iff)
  have none': "map_of (map (\<lambda>kv. (fst kv, wire (snd kv))) (filter (\<lambda>kv. snd kv \<noteq> JUndefined) kvs)) k' = None"
    using notin by (force simp: map_of_eq_None_iff)
  from Cons.IH [OF d] show ?case
    using kv none none' by (auto simp: field_def)
qed

lemma processedWeather_shape:
  "processedWeather coerce weatherData = Inr weather \<Longrightarrow>
   \<exists>kvs. weather = JObj kvs \<and> map fst kvs =
     [''temperature'', ''description'', ''coordinates'', ''feelsLike'', ''windSpeed'',
      ''countryCode'', ''rainVolume'', ''city'', ''humidity'', ''pressure'', ''icon'']"
  by (auto simp: processedWeather_def bindE_eq_Inr)

section \<open>The two weather mappings\<close>

text \<open>C9. For every upstream weather payload, the weather mapping inlined in
  \<^verbatim>\<open>GET /api/data\<close> and the one inlined in \<^verbatim>\<open>GET /api/weather\<close> give the same
  result: the same report, or the same exception.\<close>

theorem weather_mappings_agree:
  "processedWeather coerce weatherData = processedData coerce weatherData"
  by (simp add: processedWeather_def processedData_def)

section \<open>Missing parameters\<close>

text \<open>C8. A request without its required query parameter (no \<^verbatim>\<open>city\<close> for
  \<^verbatim>\<open>/api/weather\<close> and \<^verbatim>\<open>/api/data\<close>, neither \<^verbatim>\<open>city\<close> nor \<^verbatim>\<open>country\<close> for
  \<^verbatim>\<open>/api/news\<close>) is answered with status 400 and a body that carries an error and
  an example of the usage, and no outbound call is made.\<close>

theorem missing_parameter_is_400:
  "apiWeather coerce up (req\<lparr>city := JUndefined\<rparr>) =
     ([], \<lparr>status = 400, body = JObj
        [(''error'', JStr ''City parameter is required''),
         (''example'', JStr ''/api/weather?city=London'')]\<rparr>) \<and>
   apiData coerce up (req\<lparr>city := JUndefined\<rparr>) =
     ([], \<lparr>status = 400, body = JObj
        [(''error'', JStr ''City parameter is required''),
         (''example'', JStr ''/api/data?city=London'')]\<rparr>) \<and>
   apiNews up (req\<lparr>city := JUndefined, country := JUndefined\<rparr>) =
     ([], \<lparr>status = 400, body = JObj
        [(''error'', JStr ''City or country parameter is required''),
         (''example'', JStr ''/api/news?city=London or /api/news?country=GB'')]\<rparr>)"
  by (simp add: apiWeather_def apiData_def apiNews_def)

section \<open>Failures of the news provider on \<^verbatim>\<open>GET /api/news\<close>\<close>

text \<open>C7. On \<^verbatim>\<open>GET /api/news\<close> with a search term, when the upstream call is
  rejected with status 429 the response is 429 with the rate-limit error; when it is
  rejected with status 401 the response is 401 with the invalid-key error; after any
  other failure (another status, no response at all, or an exception while the payload
  is mapped) the response is 500 with the underlying message.\<close>

theorem news_failure_statuses:
  assumes q: "truthy (city req) \<or> truthy (country req)"
    and fail: "up (NewsCall (orElse (city req) (country req))) = Rejected error \<or>
      (\<exists>newsData. up (NewsCall (orElse (city req) (country req))) = Resolved newsData \<and>
         processedNews newsData = Inl error)"
  shows "(responseStatus error = Some 429 \<longrightarrow>
           snd (apiNews up req) = \<lparr>status = 429, body = JObj
             [(''error'', JStr ''API rate limit exceeded''),
              (''message'', JStr ''Please try again later'')]\<rparr>) \<and>
         (responseStatus error = Some 401 \<longrightarrow>
           snd (apiNews up req) = \<lparr>status = 401, body = JObj
             [(''error'', JStr ''Invalid API key''),
              (''message'', JStr ''Please check your News API key'')]\<rparr>) \<and>
         (responseStatus error \<noteq> Some 429 \<and> responseStatus error \<noteq> Some 401 \<longrightarrow>
           snd (apiNews up req) = \<lparr>status = 500, body = JObj
             [(''error'', JStr ''Failed to fetch news data''),
              (''message'', JStr (message error))]\<rparr>)"
proof -
  from q fail have "snd (apiNews up req) = newsCatch error"
    by (auto simp: apiNews_def Let_def)
  then show ?thesis
    by (simp add: newsCatch_def)
qed

theorem news_failure_statuses_witness:
  "snd (apiNews (upstreamOf networkDown (failedWith 429)) (cityQuery ''London'')) =
     \<lparr>status = 429, body = JObj
        [(''error'', JStr ''API rate limit exceeded''),
         (''message'', JStr ''Please try again later'')]\<rparr> \<and>
   snd (apiNews (upstreamOf networkDown (failedWith 401)) (cityQuery ''London'')) =
     \<lparr>status = 401, body = JObj
        [(''error'', JStr ''Invalid API key''),
         (''message'', JStr ''Please check your News API key'')]\<rparr> \<and>
   snd (apiNews (upstreamOf networkDown (Resolved JNull)) (cityQuery ''London'')) =
     \<lparr>status = 500, body = JObj
        [(''error'', JStr ''Failed to fetch news data''),
         (''message'', JStr (message (cannotRead ''null'' ''totalResults'')))]\<rparr>"
proof -
  have q: "truthy (city (cityQuery ''London'')) \<or> truthy (country (cityQuery ''London''))"
    by (simp add: cityQuery_def)
  have a: "upstreamOf networkDown (failedWith 429)
             (NewsCall (orElse (city (cityQuery ''London'')) (country (cityQuery ''London'')))) =
           Rejected (AxiosError (Some 429) ''Request failed'') \<or>
           (\<exists>newsData. upstreamOf networkDown (failedWith 429)
             (NewsCall (orElse (city (cityQuery ''London'')) (country (cityQuery ''London'')))) =
               Resolved newsData \<and>
             processedNews newsData = Inl (AxiosError (Some 429) ''Request failed''))"
    by (simp add: upstreamOf_def failedWith_def)
  have b: "upstreamOf networkDown (failedWith 401)
             (NewsCall (orElse (city (cityQuery ''London'')) (country (cityQuery ''London'')))) =
           Rejected (AxiosError (Some 401) ''Request failed'') \<or>
           (\<exists>newsData. upstreamOf networkDown (failedWith 401)
             (NewsCall (orElse (city (cityQuery ''London'')) (country (cityQuery ''London'')))) =
               Resolved newsData \<and>
             processedNews newsData = Inl (AxiosError (Some 401) ''Request failed''))"
    by (simp add: upstreamOf_def failedWith_def)
  have c: "upstreamOf networkDown (Resolved JNull)
             (NewsCall (orElse (city (cityQuery ''London'')) (country (cityQuery ''London'')))) =
           Rejected (cannotRead ''null'' ''totalResults'') \<or>
           (\<exists>newsData. upstreamOf networkDown (Resolved JNull)
             (NewsCall (orElse (city (cityQuery ''London'')) (country (cityQuery ''London'')))) =
               Resolved newsData \<and>
             processedNews newsData = Inl (cannotRead ''null'' ''totalResults''))"
    by (simp add: upstreamOf_def processedNews_def)
  show ?thesis
    using
      news_failure_statuses [where up = "upstreamOf networkDown (failedWith 429)", OF q a]
      news_failure_statuses [where up = "upstreamOf networkDown (failedWith 401)", OF q b]
      news_failure_statuses [where up = "upstreamOf networkDown (Resolved JNull)", OF q c]
    by (simp add: cannotRead_def)
qed

section \<open>Failures of the weather provider on \<^verbatim>\<open>GET /api/data\<close>\<close>

text \<open>C4. On \<^verbatim>\<open>GET /api/data\<close> with a city, when the weather call is rejected with
  status 404 the response is 404 with the error \<^verbatim>\<open>City not found\<close>, and the weather
  call is the only outbound call of the request: no news call is made.\<close>

theorem not_found_skips_news:
  assumes "truthy (city req)"
    and "up (WeatherCall (city req)) = Rejected error"
    and "responseStatus error = Some 404"
  shows "apiData coerce up req =
           ([WeatherCall (city req)],
            \<lparr>status = 404, body = JObj
               [(''error'', JStr ''City not found''),
                (''message'', JStr ''Please check the city name and try again'')]\<rparr>) \<and>
         (\<forall>q. NewsCall q \<notin> set (fst (apiData coerce up req)))"
  using assms by (simp add: apiData_def dataCatch_def)

theorem not_found_skips_news_witness:
  "apiData noCoercion (upstreamOf (failedWith 404) (Resolved sixArticles)) (cityQuery ''UnknownPlace123'') =
     ([WeatherCall (JStr ''UnknownPlace123'')],
      \<lparr>status = 404, body = JObj
         [(''error'', JStr ''City not found''),
          (''message'', JStr ''Please check the city name and try again'')]\<rparr>)"
proof -
  have 1: "truthy (city (cityQuery ''UnknownPlace123''))"
    by (simp add: cityQuery_def)
  have 2: "upstreamOf (failedWith 404) (Resolved sixArticles)
             (WeatherCall (city (cityQuery ''UnknownPlace123''))) =
           Rejected (AxiosError (Some 404) ''Request failed'')"
    by (simp add: upstreamOf_def failedWith_def)
  have 3: "responseStatus (AxiosError (Some 404) ''Request failed'') = Some 404"
    by simp
  from not_found_skips_news
    [where up = "upstreamOf (failedWith 404) (Resolved sixArticles)" and coerce = noCoercion, OF 1 2 3] show ?thesis
    by (simp add: cityQuery_def)
qed

text \<open>What the outer \<^verbatim>\<open>catch\<close> of \<^verbatim>\<open>GET /api/data\<close> answers to any failure of the
  weather call or of the weather mapping: 404 for an upstream 404, 500 for the rest.\<close>

lemma combined_weather_failure:
  assumes "truthy (city req)"
    and "up (WeatherCall (city req)) = Rejected error \<or>
      (\<exists>weatherData. up (WeatherCall (city req)) = Resolved weatherData \<and>
         processedWeather coerce weatherData = Inl error)"
  shows "snd (apiData coerce up req) =
           (if responseStatus error = Some 404 then
              \<lparr>status = 404, body = JObj
                 [(''error'', JStr ''City not found''),
                  (''message'', JStr ''Please check the city name and try again'')]\<rparr>
            else
              \<lparr>status = 500, body = JObj
                 [(''error'', JStr ''Failed to fetch data''),
                  (''message'', JStr (message error))]\<rparr>)"
  using assms by (auto simp: apiData_def dataCatch_def)

text \<open>C2. When the weather call fails, \<^verbatim>\<open>GET /api/data\<close> should fail with the error
  of the weather adapter: 404 for not found, the invalid-credentials error for an
  upstream 401, 500 for the rest. Evaluated at an upstream 401, the combined handler
  answers 500 \<^verbatim>\<open>Failed to fetch data\<close>, where \<^verbatim>\<open>GET /api/weather\<close> answers
  401 \<^verbatim>\<open>Invalid API key\<close> to the same failure of the same call.\<close>

theorem combined_unauthorized_is_500:
  "snd (apiData noCoercion (upstreamOf (failedWith 401) (Resolved sixArticles)) (cityQuery ''London'')) =
     \<lparr>status = 500, body = JObj
        [(''error'', JStr ''Failed to fetch data''),
         (''message'', JStr ''Request failed'')]\<rparr> \<and>
   snd (apiWeather noCoercion (upstreamOf (failedWith 401) (Resolved sixArticles)) (cityQuery ''London'')) =
     \<lparr>status = 401, body = JObj
        [(''error'', JStr ''Invalid API key''),
         (''message'', JStr ''Please check your OpenWeather API key'')]\<rparr>"
  by (simp add: apiData_def apiWeather_def cityQuery_def upstreamOf_def failedWith_def
      dataCatch_def weatherCatch_def)

section \<open>Facts about the mappings and the samples\<close>

lemma getProp_wire_obj:
  "distinct (map fst kvs) \<Longrightarrow>
   getProp (wire (JObj kvs)) k =
     Inr (if field kvs k = JUndefined then JUndefined else wire (field kvs k))"
  by (simp add: field_wire)

lemma newsArticle_sourced:
  assumes "getProp article ''source'' = Inr src" and "\<not> nullish src"
  shows "\<exists>kvs name. article = JObj kvs \<and> getProp src ''name'' = Inr name \<and>
           newsArticle article = Inr (JObj
             [(''title'', field kvs ''title''),
              (''description'', field kvs ''description''),
              (''url'', field kvs ''url''),
              (''publishedAt'', field kvs ''publishedAt''),
              (''source'', name),
              (''imageUrl'', field kvs ''urlToImage'')])"
proof -
  from assms obtain kvs where a: "article = JObj kvs" and s: "field kvs ''source'' = src"
    by (cases article) auto
  from assms(2) obtain name where n: "getProp src ''name'' = Inr name"
    by (cases src) auto
  from a s n show ?thesis
    by (simp add: newsArticle_def)
qed

lemma createNewsCard_wire:
  "createNewsCard (wire (JObj
     [(''title'', t), (''description'', d), (''url'', u),
      (''publishedAt'', p), (''source'', s), (''imageUrl'', im)])) =
   Inr \<lparr>cardImage =
          (if truthy im then Img (wire im) (if t = JUndefined then JUndefined else wire t)
           else EmptyString),
        cardSource = (if truthy s then wire s else JStr ''Unknown Source''),
        cardTitle = (if truthy t then wire t else JStr ''No title available''),
        cardDescription = (if truthy d then wire d else JStr ''No description available''),
        cardDate = (if p = JUndefined then JUndefined else wire p),
        cardLink = (if u = JUndefined then JUndefined else wire u)\<rparr>"
  by (simp add: createNewsCard_def getProp_wire_obj field_def orElse_def del: wire.simps)

lemma not_truthy_nullish: "nullish v \<Longrightarrow> \<not> truthy v"
  by (cases v) simp_all


lemma newsArticle_fields:
  "newsArticle article = Inr mapped \<Longrightarrow>
   getProp mapped ''title'' = getProp article ''title'' \<and>
   getProp mapped ''url'' = getProp article ''url'' \<and>
   getProp mapped ''publishedAt'' = getProp article ''publishedAt''"
  by (auto simp: newsArticle_def bindE_eq_Inr field_def)

lemma status_newsCatch: "status (newsCatch error) \<noteq> 200"
  by (simp add: newsCatch_def)

lemma londonData: "processedData noCoercion londonWeather = Inr londonReport"
  by (simp add: processedData_def londonWeather_def londonMain_def londonReport_def field_def
      getPropOpt_def mathRound_def orElse_def floor_eq_iff)


lemma bareArticle_mapped: "newsArticle bareArticle = Inr bareMapped"
  by (simp add: newsArticle_def bareArticle_def bareMapped_def field_def)


lemma getProp_Inr_not_nullish: "getProp v k = Inr x \<Longrightarrow> \<not> nullish v"
  by (cases v) simp_all




text \<open>What a payload must have for the weather mapping to give a report.\<close>

lemma processedData_needs:
  assumes "processedData coerce weatherData = Inr report"
  shows "\<exists>main weather weather0 coord sys.
           getProp weatherData ''main'' = Inr main \<and> \<not> nullish main \<and>
           getProp weatherData ''weather'' = Inr weather \<and>
           getElem weather 0 = Inr weather0 \<and> \<not> nullish weather0 \<and>
           getProp weatherData ''coord'' = Inr coord \<and> \<not> nullish coord \<and>
           getProp weatherData ''sys'' = Inr sys \<and> \<not> nullish sys"
  using assms
  by (auto simp add: processedData_def bindE_eq_Inr dest: getProp_Inr_not_nullish)

section \<open>Failures of the news provider on \<^verbatim>\<open>GET /api/data\<close>\<close>

text \<open>C1. On \<^verbatim>\<open>GET /api/data\<close> with a city, when the weather adapter succeeds (the
  weather call resolves and its payload maps to a report) and the news fetch fails for
  any reason (the call is rejected, or mapping its payload throws), the response is 200,
  its \<^verbatim>\<open>news\<close> is exactly the placeholder with \<^verbatim>\<open>totalResults\<close> 0, no articles and the
  error note, and its \<^verbatim>\<open>weather\<close> is the report that \<^verbatim>\<open>GET /api/weather\<close> builds from the
  same payload, an object with the eleven properties of a weather report.\<close>

theorem news_failure_degrades:
  assumes c: "truthy (city req)"
    and w: "up (WeatherCall (city req)) = Resolved weatherData"
    and m: "processedWeather coerce weatherData = Inr weather"
    and n: "up (NewsCall (city req)) = Rejected newsError \<or>
      (\<exists>data. up (NewsCall (city req)) = Resolved data \<and> dataNews data = Inl newsError)"
  shows "snd (apiData coerce up req) =
           \<lparr>status = 200, body = JObj
              [(''weather'', weather),
               (''news'', JObj
                  [(''totalResults'', JNum (Fin 0)),
                   (''articles'', JArr []),
                   (''error'', JStr ''News data unavailable'')])]\<rparr> \<and>
         processedData coerce weatherData = Inr weather \<and>
         (\<exists>kvs. weather = JObj kvs \<and> map fst kvs =
            [''temperature'', ''description'', ''coordinates'', ''feelsLike'', ''windSpeed'',
             ''countryCode'', ''rainVolume'', ''city'', ''humidity'', ''pressure'', ''icon''])"
proof -
  from n have "dataNewsOrUnavailable (up (NewsCall (city req))) = newsUnavailable"
    by (auto simp: dataNewsOrUnavailable_def)
  with c w m have "snd (apiData coerce up req) =
      \<lparr>status = 200, body = JObj [(''weather'', weather), (''news'', newsUnavailable)]\<rparr>"
    by (simp add: apiData_def)
  moreover from m have "processedData coerce weatherData = Inr weather"
    by (simp add: processedWeather_def processedData_def)
  ultimately show ?thesis
    using processedWeather_shape [OF m] by (simp add: newsUnavailable_def)
qed

theorem news_failure_degrades_witness:
  "snd (apiData noCoercion (upstreamOf (Resolved londonWeather) (failedWith 429)) (cityQuery ''London'')) =
     \<lparr>status = 200, body = JObj
        [(''weather'', londonReport),
         (''news'', JObj
            [(''totalResults'', JNum (Fin 0)),
             (''articles'', JArr []),
             (''error'', JStr ''News data unavailable'')])]\<rparr> \<and>
   snd (apiData noCoercion (upstreamOf (Resolved londonWeather) (Resolved (JStr ''<html>'')))
          (cityQuery ''London'')) =
     \<lparr>status = 200, body = JObj
        [(''weather'', londonReport),
         (''news'', JObj
            [(''totalResults'', JNum (Fin 0)),
             (''articles'', JArr []),
             (''error'', JStr ''News data unavailable'')])]\<rparr>"
proof -
  have 1: "truthy (city (cityQuery ''London''))"
    by (simp add: cityQuery_def)
  have 2: "upstreamOf (Resolved londonWeather) n
             (WeatherCall (city (cityQuery ''London''))) = Resolved londonWeather" for n
    by (simp add: upstreamOf_def)
  have 3: "processedWeather noCoercion londonWeather = Inr londonReport"
    using londonData by (simp add: processedWeather_def processedData_def)
  have 4: "upstreamOf (Resolved londonWeather) (failedWith 429)
             (NewsCall (city (cityQuery ''London''))) = Rejected (AxiosError (Some 429) ''Request failed'') \<or>
           (\<exists>data. upstreamOf (Resolved londonWeather) (failedWith 429)
             (NewsCall (city (cityQuery ''London''))) = Resolved data \<and>
             dataNews data = Inl (AxiosError (Some 429) ''Request failed''))"
    by (simp add: upstreamOf_def failedWith_def)
  have 5: "upstreamOf (Resolved londonWeather) (Resolved (JStr ''<html>''))
             (NewsCall (city (cityQuery ''London''))) =
             Rejected (cannotRead ''undefined'' ''map'') \<or>
           (\<exists>data. upstreamOf (Resolved londonWeather) (Resolved (JStr ''<html>''))
             (NewsCall (city (cityQuery ''London''))) = Resolved data \<and>
             dataNews data = Inl (cannotRead ''undefined'' ''map''))"
    by (simp add: upstreamOf_def dataNews_def)
  from news_failure_degrades
    [where up = "upstreamOf (Resolved londonWeather) (failedWith 429)", OF 1 2 3 4]
   news_failure_degrades
    [where up = "upstreamOf (Resolved londonWeather) (Resolved (JStr ''<html>''))", OF 1 2 3 5]
  show ?thesis by simp
qed

section \<open>The weather report\<close>





section \<open>The news result\<close>

text \<open>C10. When \<^verbatim>\<open>GET /api/news\<close> answers 200 for an upstream payload whose
  \<^verbatim>\<open>articles\<close> is an array, the \<^verbatim>\<open>articles\<close> of the response has the length of the
  upstream array and its i-th element is the mapping of the i-th upstream article
  (with its title, url and publication time): the server drops, caps and reorders
  nothing.\<close>

theorem news_articles_keep_length_and_order:
  assumes q: "truthy (city req) \<or> truthy (country req)"
    and up: "up (NewsCall (orElse (city req) (country req))) = Resolved newsData"
    and arts: "getProp newsData ''articles'' = Inr (JArr xs)"
    and ok: "status (snd (apiNews up req)) = 200"
  shows "\<exists>ys. getProp (body (snd (apiNews up req))) ''articles'' = Inr (JArr ys) \<and>
           length ys = length xs \<and>
           (\<forall>i<length xs.
              newsArticle (xs ! i) = Inr (ys ! i) \<and>
              getProp (ys ! i) ''title'' = getProp (xs ! i) ''title'' \<and>
              getProp (ys ! i) ''url'' = getProp (xs ! i) ''url'' \<and>
              getProp (ys ! i) ''publishedAt'' = getProp (xs ! i) ''publishedAt'')"
proof -
  from q up have resp: "snd (apiNews up req) =
      (case processedNews newsData of
         Inl error \<Rightarrow> newsCatch error
       | Inr news \<Rightarrow> \<lparr>status = 200, body = news\<rparr>)"
    by (auto simp: apiNews_def Let_def split: sum.splits)
  with ok obtain news where news: "processedNews newsData = Inr news"
    by (cases "processedNews newsData") (simp_all add: status_newsCatch)
  with resp have b: "body (snd (apiNews up req)) = news"
    by simp
  from news arts obtain ys where ys: "mapE newsArticle xs = Inr ys"
    and a: "getProp news ''articles'' = Inr (JArr ys)"
    by (auto simp: processedNews_def bindE_eq_Inr field_def)
  have "newsArticle (xs ! i) = Inr (ys ! i)" if "i < length xs" for i
    using ys that by (rule mapE_nth)
  with a b mapE_length [OF ys] show ?thesis
    by (auto dest: newsArticle_fields)
qed

theorem news_articles_keep_length_and_order_witness:
  "\<exists>ys. getProp (body (snd (apiNews (upstreamOf networkDown (Resolved sixArticles)) (cityQuery ''London''))))
           ''articles'' = Inr (JArr ys) \<and>
        length ys = 6 \<and>
        getProp (ys ! 0) ''title'' = Inr (JStr ''a'') \<and>
        getProp (ys ! 5) ''title'' = Inr (JStr ''f'')"
proof -
  let ?xs = "[fullArticle ''a'', fullArticle ''b'', fullArticle ''c'',
              fullArticle ''d'', fullArticle ''e'', fullArticle ''f'']"
  have 1: "truthy (city (cityQuery ''London'')) \<or> truthy (country (cityQuery ''London''))"
    by (simp add: cityQuery_def)
  have 2: "upstreamOf networkDown (Resolved sixArticles)
             (NewsCall (orElse (city (cityQuery ''London'')) (country (cityQuery ''London'')))) =
           Resolved sixArticles"
    by (simp add: upstreamOf_def)
  have 3: "getProp sixArticles ''articles'' = Inr (JArr ?xs)"
    by (simp add: sixArticles_def field_def)
  have 4: "status (snd (apiNews (upstreamOf networkDown (Resolved sixArticles)) (cityQuery ''London''))) = 200"
    by (simp add: apiNews_def cityQuery_def orElse_def upstreamOf_def sixArticles_def
        processedNews_def newsArticle_def fullArticle_def field_def)
  from news_articles_keep_length_and_order
    [where up = "upstreamOf networkDown (Resolved sixArticles)", OF 1 2 3 4]
  obtain ys where
    a: "getProp (body (snd (apiNews (upstreamOf networkDown (Resolved sixArticles)) (cityQuery ''London''))))
          ''articles'' = Inr (JArr ys)"
    and l: "length ys = length ?xs"
    and e: "\<forall>i<length ?xs. getProp (ys ! i) ''title'' = getProp (?xs ! i) ''title''"
    by blast
  from e have "getProp (ys ! 0) ''title'' = getProp (?xs ! 0) ''title''"
    and "getProp (ys ! 5) ''title'' = getProp (?xs ! 5) ''title''"
    by simp_all
  then have "getProp (ys ! 0) ''title'' = Inr (JStr ''a'')"
    and "getProp (ys ! 5) ''title'' = Inr (JStr ''f'')"
    by (simp_all add: fullArticle_def field_def)
  with a l show ?thesis by auto
qed

text \<open>C3. For an upstream news payload whose articles each have a \<^verbatim>\<open>source\<close> (the
  only property that the mapping dereferences), the request succeeds whatever titles,
  descriptions and images are missing. The server passes each of the three on as it
  is, so a missing one stays empty (\<^verbatim>\<open>undefined\<close>, or the provider's \<^verbatim>\<open>null\<close>), and the
  card that the client builds from the answer shows \<^verbatim>\<open>No title available\<close>,
  \<^verbatim>\<open>No description available\<close> and no image in its place.\<close>

theorem missing_optional_fields_never_fail:
  assumes q: "truthy (city req) \<or> truthy (country req)"
    and up: "up (NewsCall (orElse (city req) (country req))) = Resolved newsData"
    and arts: "getProp newsData ''articles'' = Inr (JArr xs)"
    and src: "\<forall>a\<in>set xs. \<exists>src. getProp a ''source'' = Inr src \<and> \<not> nullish src"
  shows "\<exists>news ys.
           snd (apiNews up req) = \<lparr>status = 200, body = news\<rparr> \<and>
           getProp news ''articles'' = Inr (JArr ys) \<and> length ys = length xs \<and>
           (\<forall>i<length xs. \<exists>card.
              newsArticle (xs ! i) = Inr (ys ! i) \<and>
              createNewsCard (wire (ys ! i)) = Inr card \<and>
              (\<forall>t. getProp (xs ! i) ''title'' = Inr t \<longrightarrow>
                 getProp (ys ! i) ''title'' = Inr t \<and>
                 (nullish t \<longrightarrow> cardTitle card = JStr ''No title available'')) \<and>
              (\<forall>d. getProp (xs ! i) ''description'' = Inr d \<longrightarrow>
                 getProp (ys ! i) ''description'' = Inr d \<and>
                 (nullish d \<longrightarrow> cardDescription card = JStr ''No description available'')) \<and>
              (\<forall>u. getProp (xs ! i) ''urlToImage'' = Inr u \<longrightarrow>
                 getProp (ys ! i) ''imageUrl'' = Inr u \<and>
                 (nullish u \<longrightarrow> cardImage card = EmptyString)))"
proof -
  from src have "\<forall>a\<in>set xs. \<exists>y. newsArticle a = Inr y"
    using newsArticle_sourced by blast
  then obtain ys where ys: "mapE newsArticle xs = Inr ys"
    using mapE_total by blast
  from arts obtain kvs where nd: "newsData = JObj kvs"
    by (cases newsData) auto
  define news where "news = JObj [(''totalResults'', field kvs ''totalResults''), (''articles'', JArr ys)]"
  from nd arts ys have pn: "processedNews newsData = Inr news"
    by (simp add: processedNews_def news_def)
  with q up have resp: "snd (apiNews up req) = \<lparr>status = 200, body = news\<rparr>"
    by (auto simp: apiNews_def Let_def)
  have arts': "getProp news ''articles'' = Inr (JArr ys)"
    by (simp add: news_def field_def)
  have len: "length ys = length xs"
    using ys by (rule mapE_length)
  have each: "\<exists>card.
      newsArticle (xs ! i) = Inr (ys ! i) \<and>
      createNewsCard (wire (ys ! i)) = Inr card \<and>
      (\<forall>t. getProp (xs ! i) ''title'' = Inr t \<longrightarrow>
         getProp (ys ! i) ''title'' = Inr t \<and>
         (nullish t \<longrightarrow> cardTitle card = JStr ''No title available'')) \<and>
      (\<forall>d. getProp (xs ! i) ''description'' = Inr d \<longrightarrow>
         getProp (ys ! i) ''description'' = Inr d \<and>
         (nullish d \<longrightarrow> cardDescription card = JStr ''No description available'')) \<and>
      (\<forall>u. getProp (xs ! i) ''urlToImage'' = Inr u \<longrightarrow>
         getProp (ys ! i) ''imageUrl'' = Inr u \<and>
         (nullish u \<longrightarrow> cardImage card = EmptyString))"
    if i: "i < length xs" for i
  proof -
    have m: "newsArticle (xs ! i) = Inr (ys ! i)"
      using ys i by (rule mapE_nth)
    from i have "xs ! i \<in> set xs" by simp
    with src obtain s where s: "getProp (xs ! i) ''source'' = Inr s" "\<not> nullish s"
      by blast
    from newsArticle_sourced [OF s] m obtain akvs name where
      a: "xs ! i = JObj akvs" and
      y: "ys ! i = JObj
             [(''title'', field akvs ''title''),
              (''description'', field akvs ''description''),
              (''url'', field akvs ''url''),
              (''publishedAt'', field akvs ''publishedAt''),
              (''source'', name),
              (''imageUrl'', field akvs ''urlToImage'')]"
      by auto
    show ?thesis
      unfolding m y createNewsCard_wire
      by (simp add: a field_def [of "[_]"] field_def [of "_ # _"] not_truthy_nullish del: wire.simps)
  qed
  from resp arts' len each show ?thesis
    by blast
qed

theorem missing_optional_fields_never_fail_witness:
  "\<exists>news.
     snd (apiNews (upstreamOf networkDown (Resolved bareNews)) (cityQuery ''London'')) =
       \<lparr>status = 200, body = news\<rparr> \<and>
     getProp news ''articles'' = Inr (JArr [bareMapped]) \<and>
     createNewsCard (wire bareMapped) = Inr bareCard \<and>
     cardTitle bareCard = JStr ''No title available'' \<and>
     cardDescription bareCard = JStr ''No description available'' \<and>
     cardImage bareCard = EmptyString"
proof -
  have 1: "truthy (city (cityQuery ''London'')) \<or> truthy (country (cityQuery ''London''))"
    by (simp add: cityQuery_def)
  have 2: "upstreamOf networkDown (Resolved bareNews)
             (NewsCall (orElse (city (cityQuery ''London'')) (country (cityQuery ''London'')))) =
           Resolved bareNews"
    by (simp add: upstreamOf_def)
  have 3: "getProp bareNews ''articles'' = Inr (JArr [bareArticle])"
    by (simp add: bareNews_def field_def)
  have 4: "\<forall>a\<in>set [bareArticle]. \<exists>src. getProp a ''source'' = Inr src \<and> \<not> nullish src"
    by (simp add: bareArticle_def field_def)
  from missing_optional_fields_never_fail
    [where up = "upstreamOf networkDown (Resolved bareNews)", OF 1 2 3 4]
  obtain news ys card where
    r: "snd (apiNews (upstreamOf networkDown (Resolved bareNews)) (cityQuery ''London'')) =
          \<lparr>status = 200, body = news\<rparr>"
    and a: "getProp news ''articles'' = Inr (JArr ys)"
    and l: "length ys = 1"
    and m: "newsArticle bareArticle = Inr (ys ! 0)"
    and k: "createNewsCard (wire (ys ! 0)) = Inr card"
    and t: "nullish JUndefined \<longrightarrow> cardTitle card = JStr ''No title available''"
    by (fastforce simp: bareArticle_def field_def)
  from m bareArticle_mapped have y0: "ys ! 0 = bareMapped"
    by simp
  with l have ys: "ys = [bareMapped]"
    by (cases ys) simp_all
  have c: "createNewsCard (wire bareMapped) = Inr bareCard"
    by (simp add: bareMapped_def bareCard_def createNewsCard_def field_def orElse_def)
  from r a ys c show ?thesis
    by (simp add: bareCard_def)
qed

end
